theory Spec2Isabelle
  imports Complex_Main
begin

section \<open>Data model of \<open>keymaster_api.py\<close>\<close>

text \<open>
  A Python \<open>float\<close> is modelled by \<open>pyfloat\<close>: \<open>Finite v\<close> is the finite float of
  value \<open>v\<close>, positive zero being \<open>Finite 0\<close>; \<open>NegZero\<close> is the float \<open>-0.0\<close>, and
  \<open>PosInf\<close>, \<open>NegInf\<close> and \<open>NaN\<close> are \<open>inf\<close>, \<open>-inf\<close> and \<open>nan\<close>. No operation of
  the program does float arithmetic: floats are written as literals, copied, and
  formatted. A literal such as \<open>0.0012\<close> stands for its decimal value. A Python
  \<open>int\<close> is modelled by \<open>int\<close> and a \<open>str\<close> by \<open>string\<close>.

  The fields \<open>x\<close>, \<open>y\<close>, \<open>z\<close> of \<open>PointModel\<close> are named \<open>point_x\<close>, \<open>point_y\<close>,
  \<open>point_z\<close> here, so that the one-letter names stay free for variables.
\<close>

datatype pyfloat = Finite real | NegZero | PosInf | NegInf | NaN

record PointModel =
  point_x :: pyfloat
  point_y :: pyfloat
  point_z :: pyfloat

record CalibrationResultModel =
  rmse :: pyfloat
  transform_elements :: "pyfloat list"
  source_platform :: string
  num_points_used :: int

record CalibrationRequestModel =
  arw_points :: "PointModel list"
  rwp_points :: "PointModel list"

record AnalysisRequestModel =
  result :: CalibrationResultModel
  prompt :: string

text \<open>The dictionary \<open>{"analysis": analysis_text}\<close> that \<open>analyze\<close> returns.\<close>

record AnalysisResponse =
  analysis :: string

subsection \<open>Exceptions and error responses\<close>

text \<open>
  The exceptions the program can meet. Constructing a \<open>CalibrationResultModel\<close>
  validates \<open>transform_elements\<close> against \<open>Field(..., min_items=16, max_items=16)\<close>;
  a violation raises pydantic's \<open>ValidationError\<close>, recorded here with the name of
  the violated constraint. \<open>secrets.compare_digest\<close> raises \<open>TypeError\<close> on a string
  with a non-ASCII character, a dictionary lookup raises \<open>KeyError\<close> with the missing
  key, and \<open>HTTPException\<close> carries its \<open>status_code\<close>, \<open>detail\<close> and \<open>headers\<close>.
\<close>

datatype exn =
    ValidationError string
  | TypeError string
  | KeyError string
  | HTTPException nat string "(string \<times> string) list"

text \<open>
  \<open>JSONResponse(status_code=500, content={"error": str(e)})\<close>: the status code and
  the exception whose text is the body's \<open>error\<close> field.
\<close>

datatype JSONResponse = JSONResponse (status_code: nat) (error_of: exn)

subsection \<open>The logger\<close>

text \<open>
  The module-level logger is the only state the endpoints touch. It is modelled as
  the list of records emitted so far, each a level and a message. A message is an
  f-string kept as its parts, literal text and interpolated values, in order; how
  \<open>str\<close> prints an interpolated number is not modelled.
\<close>

datatype level = INFO | ERROR

datatype part = Lit string | IntVal int | FloatVal pyfloat | StrVal string | ExnVal exn

type_synonym log = "(level \<times> part list) list"

definition logger_info :: "part list \<Rightarrow> log \<Rightarrow> log" where
  "logger_info msg lg = lg @ [(INFO, msg)]"

definition logger_error :: "part list \<Rightarrow> log \<Rightarrow> log" where
  "logger_error msg lg = lg @ [(ERROR, msg)]"

section \<open>\<open>calibrate\<close>\<close>

text \<open>
  The constructor call \<open>CalibrationResultModel(rmse=..., transform_elements=...,
  source_platform=..., num_points_used=...)\<close> with its length validation.
\<close>

definition new_CalibrationResultModel ::
  "pyfloat \<Rightarrow> pyfloat list \<Rightarrow> string \<Rightarrow> int \<Rightarrow> exn + CalibrationResultModel" where
  "new_CalibrationResultModel r te sp n =
     (if length te < 16 then Inl (ValidationError ''min_items'')
      else if 16 < length te then Inl (ValidationError ''max_items'')
      else Inr \<lparr>rmse = r, transform_elements = te, source_platform = sp,
                num_points_used = n\<rparr>)"

text \<open>
  \<open>[1.0 if i % 5 == 0 else 0.0 for i in range(16)]\<close>
\<close>

definition mock_transform_elements :: "pyfloat list" where
  "mock_transform_elements =
     map (\<lambda>i::int. if i mod 5 = 0 then Finite 1.0 else Finite 0.0) [0..15]"

text \<open>
  The endpoint: it takes the request and the log so far, and returns the response
  (\<open>Inr\<close> the result model, \<open>Inl\<close> the 500 response of the \<open>except\<close> branch) with
  the log extended. The only call of the \<open>try\<close> body that can raise is the
  constructor.
\<close>

definition calibrate ::
  "CalibrationRequestModel \<Rightarrow> log \<Rightarrow> (JSONResponse + CalibrationResultModel) \<times> log" where
  "calibrate request lg =
     (let lg1 = logger_info
            [Lit ''Received calibration request with '',
             IntVal (int (length (arw_points request))),
             Lit '' ARW points and '',
             IntVal (int (length (rwp_points request))),
             Lit '' RWP points.''] lg
      in case new_CalibrationResultModel
                (Finite 0.0012)
                mock_transform_elements
                ''python''
                (int (length (arw_points request))) of
           Inr mock_result \<Rightarrow>
             (Inr mock_result,
              logger_info [Lit ''Returning mock calibration result: RMSE='',
                           FloatVal (rmse mock_result)] lg1)
         | Inl e \<Rightarrow>
             (Inl (JSONResponse 500 e),
              logger_error [Lit ''Error in /api/calibrate: '', ExnVal e] lg1))"

subsection \<open>The 4x4 identity, from its definition\<close>

text \<open>
  The identity matrix of order 4, entry \<open>(i, j)\<close> being 1 on the diagonal and 0
  elsewhere, flattened row by row. This follows the words "4x4 identity, row-major",
  not the code.
\<close>

definition identity4_row_major :: "pyfloat list" where
  "identity4_row_major =
     concat (map (\<lambda>i::nat. map (\<lambda>j::nat. if i = j then Finite 1 else Finite 0) [0..<4])
               [0..<4])"

section \<open>\<open>analyze\<close>\<close>

subsection \<open>The format specification \<open>.4f\<close>\<close>

text \<open>
  \<open>f"{v:.4f}"\<close> prints a finite float in fixed-point notation with four digits
  after the point: a minus sign when the sign bit of \<open>v\<close> is set (\<open>v\<close> is negative or
  is \<open>-0.0\<close>), the integer part without leading zeros (at least one digit), the
  point, and four fractional digits. The digits are those of the magnitude of \<open>v\<close>
  rounded to the nearest multiple of \<open>1/10000\<close>, a tie going to the even neighbour.
  The other floats print as \<open>inf\<close>, \<open>-inf\<close> and \<open>nan\<close>.
\<close>

text \<open>The character of a decimal digit; the argument is taken modulo 10.\<close>

definition digit_char :: "nat \<Rightarrow> char" where
  "digit_char d = ''0123456789'' ! (d mod 10)"

text \<open>The decimal numeral of a natural number.\<close>

fun str_nat :: "nat \<Rightarrow> string" where
  "str_nat n =
     (if n < 10 then [digit_char n] else str_nat (n div 10) @ [digit_char (n mod 10)])"

declare str_nat.simps [simp del]

text \<open>The last four decimal digits of \<open>m\<close>, with leading zeros.\<close>

definition zero_padded4 :: "nat \<Rightarrow> string" where
  "zero_padded4 m =
     [digit_char (m div 1000), digit_char (m div 100), digit_char (m div 10), digit_char m]"

definition round_half_even :: "real \<Rightarrow> int" where
  "round_half_even v =
     (let f = \<lfloor>v\<rfloor>; d = v - of_int f
      in if d < 1 / 2 then f
         else if 1 / 2 < d then f + 1
         else if even f then f else f + 1)"

text \<open>The fixed-point text for a sign bit and a magnitude.\<close>

definition fixed_4f :: "bool \<Rightarrow> real \<Rightarrow> string" where
  "fixed_4f negative m =
     (let n = nat (round_half_even (m * 10 ^ 4))
      in (if negative then ''-'' else '''')
         @ str_nat (n div 10 ^ 4) @ ''.'' @ zero_padded4 (n mod 10 ^ 4))"

fun format_4f :: "pyfloat \<Rightarrow> string" where
  "format_4f (Finite v) = fixed_4f (v < 0) \<bar>v\<bar>"
| "format_4f NegZero = fixed_4f True 0"
| "format_4f PosInf = ''inf''"
| "format_4f NegInf = ''-inf''"
| "format_4f NaN = ''nan''"

subsection \<open>The endpoint\<close>

text \<open>
  No call of the \<open>try\<close> body can raise on a validated request, so the \<open>except\<close>
  branch has no counterpart here: the response is always the dictionary. The
  character \<open>CHR 0x27\<close> is the single quote around the prompt in the first log line.
\<close>

definition analyze ::
  "AnalysisRequestModel \<Rightarrow> log \<Rightarrow> (JSONResponse + AnalysisResponse) \<times> log" where
  "analyze request lg =
     (let lg1 = logger_info
            [Lit ''Received analysis request with RMSE='',
             FloatVal (rmse (result request)),
             Lit ('' and prompt='' @ [CHR 0x27]),
             StrVal (prompt request),
             Lit [CHR 0x27]] lg;
          analysis_text =
            ''AI Analysis: The received RMSE is ''
            @ format_4f (rmse (result request))
            @ ''. Data parsed successfully.'';
          lg2 = logger_info [Lit ''Returning mock analysis text.''] lg1
      in (Inr \<lparr>analysis = analysis_text\<rparr>, lg2))"

subsection \<open>Reading a decimal numeral back\<close>





section \<open>\<open>auth.py\<close>\<close>

record HTTPBasicCredentials =
  username :: string
  password :: string

definition HTTP_401_UNAUTHORIZED :: nat where
  "HTTP_401_UNAUTHORIZED = 401"


text \<open>
  \<open>secrets.compare_digest(a, b)\<close> on two \<open>str\<close> arguments: it accepts ASCII strings
  only and raises \<open>TypeError\<close> otherwise; on ASCII strings it is equality.
\<close>

definition is_ascii :: "string \<Rightarrow> bool" where
  "is_ascii s = list_all (\<lambda>c. of_char c < (128::nat)) s"

definition compare_digest :: "string \<Rightarrow> string \<Rightarrow> exn + bool" where
  "compare_digest a b =
     (if is_ascii a \<and> is_ascii b then Inr (a = b)
      else Inl (TypeError ''comparing strings with non-ASCII characters is not supported''))"

text \<open>
  \<open>authenticate\<close> reads the module-level store, passed here as the argument \<open>us\<close>.
  Its statements run in the source's order: the comparison of the user name, the
  lookup \<open>users["admin"]\<close>, the comparison of the password, and the test.
\<close>

definition authenticate ::
  "(string \<rightharpoonup> string) \<Rightarrow> HTTPBasicCredentials \<Rightarrow> exn + string" where
  "authenticate us credentials =
     (case compare_digest (username credentials) ''admin'' of
        Inl e \<Rightarrow> Inl e
      | Inr correct_username \<Rightarrow>
          (case us ''admin'' of
             None \<Rightarrow> Inl (KeyError ''admin'')
           | Some stored \<Rightarrow>
               (case compare_digest (password credentials) stored of
                  Inl e \<Rightarrow> Inl e
                | Inr correct_password \<Rightarrow>
                    if \<not> (correct_username \<and> correct_password)
                    then Inl (HTTPException HTTP_401_UNAUTHORIZED
                                ''Incorrect username or password''
                                [(''WWW-Authenticate'', ''Basic'')])
                    else Inr (username credentials))))"

section \<open>Properties of \<open>calibrate\<close>\<close>

subsection \<open>Evaluating the mock result\<close>

lemma upto_0_15: "[0..15::int] = [0, 1, 2, 3, 4, 5, 6, 7, 8, 9, 10, 11, 12, 13, 14, 15]"
  by code_simp

lemma upt_0_4: "[0..<4] = [0, 1, 2, 3::nat]"
  by code_simp

lemma mock_transform_elements_list:
  "mock_transform_elements = [Finite 1, Finite 0, Finite 0, Finite 0,
                              Finite 0, Finite 1, Finite 0, Finite 0,
                              Finite 0, Finite 0, Finite 1, Finite 0,
                              Finite 0, Finite 0, Finite 0, Finite 1]"
  unfolding mock_transform_elements_def upto_0_15 by simp

lemma identity4_row_major_list:
  "identity4_row_major = [Finite 1, Finite 0, Finite 0, Finite 0,
                          Finite 0, Finite 1, Finite 0, Finite 0,
                          Finite 0, Finite 0, Finite 1, Finite 0,
                          Finite 0, Finite 0, Finite 0, Finite 1]"
  unfolding identity4_row_major_def upt_0_4 by simp

lemma length_mock_transform_elements: "length mock_transform_elements = 16"
  by (simp add: mock_transform_elements_list)

text \<open>The constructor accepts the mock transform: its validation never fails there.\<close>

lemma new_CalibrationResultModel_mock:
  "new_CalibrationResultModel r mock_transform_elements sp n =
     Inr \<lparr>rmse = r, transform_elements = mock_transform_elements, source_platform = sp,
          num_points_used = n\<rparr>"
  by (simp add: new_CalibrationResultModel_def length_mock_transform_elements)

text \<open>Hence the \<open>except\<close> branch of \<open>calibrate\<close> is never taken.\<close>

lemma calibrate_response:
  "fst (calibrate request lg) =
     Inr \<lparr>rmse = Finite 0.0012, transform_elements = mock_transform_elements,
          source_platform = ''python'',
          num_points_used = int (length (arw_points request))\<rparr>"
  by (simp add: calibrate_def Let_def new_CalibrationResultModel_mock)

lemma calibrate_log:
  "snd (calibrate request lg) =
     lg @ [(INFO, [Lit ''Received calibration request with '',
                   IntVal (int (length (arw_points request))),
                   Lit '' ARW points and '',
                   IntVal (int (length (rwp_points request))),
                   Lit '' RWP points.'']),
           (INFO, [Lit ''Returning mock calibration result: RMSE='', FloatVal (Finite 0.0012)])]"
  by (simp add: calibrate_def Let_def new_CalibrationResultModel_mock logger_info_def)

subsection \<open>The transform is the identity\<close>

text \<open>
  Claim C1. For every calibration request, whatever its points, and whatever has been
  logged before, \<open>calibrate\<close> returns a result (not an error response) whose
  \<open>transform_elements\<close> are the sixteen entries of the 4x4 identity matrix in
  row-major order: 1 at the indices 0, 5, 10 and 15, and 0 everywhere else.
\<close>

theorem calibrate_returns_identity_transform:
  "\<exists>r. fst (calibrate request lg) = Inr r
     \<and> transform_elements r = identity4_row_major
     \<and> transform_elements r = [Finite 1, Finite 0, Finite 0, Finite 0,
                                    Finite 0, Finite 1, Finite 0, Finite 0,
                                    Finite 0, Finite 0, Finite 1, Finite 0,
                                    Finite 0, Finite 0, Finite 0, Finite 1]"
  by (simp add: calibrate_response identity4_row_major_list mock_transform_elements_list)

subsection \<open>Fitting a point set to itself\<close>

text \<open>
  Claim C2, as stated, fails: fitting the one-point set \<open>(1, 2, 3)\<close> to itself
  returns the identity transform with \<open>rmse = Finite 0.0012\<close>, which is not
  zero, neither \<open>0.0\<close> nor \<open>-0.0\<close>.
\<close>

theorem calibrate_self_fit_rmse_counterexample:
  "fst (calibrate
          \<lparr>arw_points = [\<lparr>point_x = Finite 1, point_y = Finite 2, point_z = Finite 3\<rparr>],
           rwp_points = [\<lparr>point_x = Finite 1, point_y = Finite 2, point_z = Finite 3\<rparr>]\<rparr> [])
     = Inr \<lparr>rmse = Finite 0.0012,
            transform_elements = [Finite 1, Finite 0, Finite 0, Finite 0,
                                  Finite 0, Finite 1, Finite 0, Finite 0,
                                  Finite 0, Finite 0, Finite 1, Finite 0,
                                  Finite 0, Finite 0, Finite 0, Finite 1],
            source_platform = ''python'', num_points_used = 1\<rparr>
   \<and> rmse \<lparr>rmse = Finite 0.0012,
            transform_elements = [Finite 1, Finite 0, Finite 0, Finite 0,
                                  Finite 0, Finite 1, Finite 0, Finite 0,
                                  Finite 0, Finite 0, Finite 1, Finite 0,
                                  Finite 0, Finite 0, Finite 0, Finite 1],
            source_platform = ''python'', num_points_used = 1\<rparr>
       \<notin> {Finite 0, NegZero}"
  by (simp add: calibrate_response mock_transform_elements_list)

text \<open>
  Claim C2, amended. For every non-empty point set, \<open>calibrate\<close> with the source
  list equal to the target list returns a result whose transform is the identity and
  whose \<open>rmse\<close> is the constant 0.0012 of the mock.
\<close>

theorem calibrate_self_fit:
  "pts \<noteq> [] \<Longrightarrow>
     \<exists>r. fst (calibrate \<lparr>arw_points = pts, rwp_points = pts\<rparr> lg) = Inr r
       \<and> transform_elements r = identity4_row_major
       \<and> rmse r = Finite 0.0012"
  by (simp add: calibrate_response identity4_row_major_list mock_transform_elements_list)

theorem calibrate_self_fit_witness:
  "[\<lparr>point_x = Finite 1, point_y = Finite 2, point_z = Finite 3\<rparr>] \<noteq> []
   \<and> (\<exists>r. fst (calibrate
                 \<lparr>arw_points = [\<lparr>point_x = Finite 1, point_y = Finite 2, point_z = Finite 3\<rparr>],
                  rwp_points = [\<lparr>point_x = Finite 1, point_y = Finite 2, point_z = Finite 3\<rparr>]\<rparr> []) = Inr r
          \<and> transform_elements r = identity4_row_major
          \<and> rmse r = Finite 0.0012)"
proof -
  have ne: "[\<lparr>point_x = Finite 1, point_y = Finite 2, point_z = Finite 3\<rparr>] \<noteq> []"
    by simp
  from calibrate_self_fit [OF ne, of "[]"] ne show ?thesis
    by blast
qed

subsection \<open>No validation of the point lists\<close>

text \<open>
  Claim C3, as stated, fails: with three source points and two target points
  \<open>calibrate\<close> returns a result, with \<open>num_points_used = 3\<close>, and no error.
\<close>

theorem calibrate_length_mismatch_counterexample:
  "fst (calibrate
          \<lparr>arw_points = [\<lparr>point_x = Finite 0, point_y = Finite 0, point_z = Finite 0\<rparr>,
                         \<lparr>point_x = Finite 1, point_y = Finite 0, point_z = Finite 0\<rparr>,
                         \<lparr>point_x = Finite 0, point_y = Finite 1, point_z = Finite 0\<rparr>],
           rwp_points = [\<lparr>point_x = Finite 0, point_y = Finite 0, point_z = Finite 0\<rparr>,
                         \<lparr>point_x = Finite 1, point_y = Finite 0, point_z = Finite 0\<rparr>]\<rparr> [])
     = Inr \<lparr>rmse = Finite 0.0012,
            transform_elements = [Finite 1, Finite 0, Finite 0, Finite 0,
                                  Finite 0, Finite 1, Finite 0, Finite 0,
                                  Finite 0, Finite 0, Finite 1, Finite 0,
                                  Finite 0, Finite 0, Finite 0, Finite 1],
            source_platform = ''python'', num_points_used = 3\<rparr>"
  by (simp add: calibrate_response mock_transform_elements_list)

text \<open>
  Claim C3, amended. For every pair of point lists whose lengths differ,
  \<open>calibrate\<close> does not fail: it returns a result, whose \<open>num_points_used\<close> is the
  length of the source list.
\<close>

theorem calibrate_length_mismatch_accepted:
  "length src \<noteq> length tgt \<Longrightarrow>
     \<exists>r. fst (calibrate \<lparr>arw_points = src, rwp_points = tgt\<rparr> lg) = Inr r
       \<and> num_points_used r = int (length src)"
  by (simp add: calibrate_response)

theorem calibrate_length_mismatch_accepted_witness:
  "length [\<lparr>point_x = Finite 1, point_y = Finite 2, point_z = Finite 3\<rparr>] \<noteq> length ([] :: PointModel list)
   \<and> (\<exists>r. fst (calibrate
                 \<lparr>arw_points = [\<lparr>point_x = Finite 1, point_y = Finite 2, point_z = Finite 3\<rparr>],
                  rwp_points = []\<rparr> []) = Inr r
          \<and> num_points_used r = int (length [\<lparr>point_x = Finite 1, point_y = Finite 2, point_z = Finite 3\<rparr>]))"
proof -
  have ne: "length [\<lparr>point_x = Finite 1, point_y = Finite 2, point_z = Finite 3\<rparr>]
              \<noteq> length ([] :: PointModel list)"
    by simp
  from calibrate_length_mismatch_accepted [OF ne, of "[]"] ne show ?thesis
    by blast
qed

text \<open>
  Claim C4, as stated, fails: with two correspondences \<open>calibrate\<close> returns a
  result, with \<open>num_points_used = 2\<close>, and no error.
\<close>

theorem calibrate_two_points_counterexample:
  "fst (calibrate
          \<lparr>arw_points = [\<lparr>point_x = Finite 0, point_y = Finite 0, point_z = Finite 0\<rparr>,
                         \<lparr>point_x = Finite 1, point_y = Finite 0, point_z = Finite 0\<rparr>],
           rwp_points = [\<lparr>point_x = Finite 0, point_y = Finite 0, point_z = Finite 1\<rparr>,
                         \<lparr>point_x = Finite 1, point_y = Finite 0, point_z = Finite 1\<rparr>]\<rparr> [])
     = Inr \<lparr>rmse = Finite 0.0012,
            transform_elements = [Finite 1, Finite 0, Finite 0, Finite 0,
                                  Finite 0, Finite 1, Finite 0, Finite 0,
                                  Finite 0, Finite 0, Finite 1, Finite 0,
                                  Finite 0, Finite 0, Finite 0, Finite 1],
            source_platform = ''python'', num_points_used = 2\<rparr>"
  by (simp add: calibrate_response mock_transform_elements_list)

text \<open>
  Claim C4, amended. For every calibration request with fewer than 3 point
  correspondences (the shorter of its two lists has fewer than 3 points),
  \<open>calibrate\<close> does not fail: it returns a result, whose \<open>num_points_used\<close> is the
  length of the source list.
\<close>

theorem calibrate_few_points_accepted:
  "min (length (arw_points request)) (length (rwp_points request)) < 3 \<Longrightarrow>
     \<exists>r. fst (calibrate request lg) = Inr r
       \<and> num_points_used r = int (length (arw_points request))"
  by (simp add: calibrate_response)

theorem calibrate_few_points_accepted_witness:
  "min (length (arw_points \<lparr>arw_points = [], rwp_points = []\<rparr>))
       (length (rwp_points \<lparr>arw_points = [], rwp_points = []\<rparr>)) < 3
   \<and> (\<exists>r. fst (calibrate \<lparr>arw_points = [], rwp_points = []\<rparr> []) = Inr r
          \<and> num_points_used r = int (length (arw_points \<lparr>arw_points = [], rwp_points = []\<rparr>)))"
proof -
  have few: "min (length (arw_points \<lparr>arw_points = [], rwp_points = []\<rparr>))
                 (length (rwp_points \<lparr>arw_points = [], rwp_points = []\<rparr>)) < 3"
    by simp
  from calibrate_few_points_accepted [OF few, of "[]"] few show ?thesis
    by blast
qed

subsection \<open>Shape of the result\<close>



subsection \<open>Determinism\<close>

text \<open>
  Claim C6. \<open>calibrate\<close> is deterministic: two calls with identical requests return
  identical responses (the same \<open>transform_elements\<close>, \<open>rmse\<close>, \<open>source_platform\<close> and
  \<open>num_points_used\<close>), whatever state the logger, the only state the endpoint
  touches, is in at either call.
\<close>

theorem calibrate_deterministic:
  "request1 = request2 \<Longrightarrow>
     fst (calibrate request1 lg1) = fst (calibrate request2 lg2)"
  by (simp add: calibrate_response)

theorem calibrate_deterministic_witness:
  "fst (calibrate \<lparr>arw_points = [\<lparr>point_x = Finite 1, point_y = Finite 2, point_z = Finite 3\<rparr>],
                   rwp_points = [\<lparr>point_x = Finite 4, point_y = Finite 5, point_z = Finite 6\<rparr>]\<rparr> [])
   = fst (calibrate \<lparr>arw_points = [\<lparr>point_x = Finite 1, point_y = Finite 2, point_z = Finite 3\<rparr>],
                     rwp_points = [\<lparr>point_x = Finite 4, point_y = Finite 5, point_z = Finite 6\<rparr>]\<rparr>
            [(INFO, [Lit ''Returning mock analysis text.''])])"
  by (rule calibrate_deterministic [OF refl])

subsection \<open>What the response depends on\<close>

text \<open>
  Claim C9. For every calibration request, also one with empty lists or with lists
  of unequal length, \<open>calibrate\<close> succeeds: it returns a result and not an error
  response. \<open>num_points_used\<close> is the length of the source list \<open>arw_points\<close>, and the
  whole response is the same for any other target list \<open>rwp_points\<close>.
\<close>

theorem calibrate_succeeds_counting_source:
  "(\<exists>r. fst (calibrate \<lparr>arw_points = src, rwp_points = tgt\<rparr> lg) = Inr r
        \<and> num_points_used r = int (length src))
   \<and> fst (calibrate \<lparr>arw_points = src, rwp_points = tgt\<rparr> lg)
       = fst (calibrate \<lparr>arw_points = src, rwp_points = tgt'\<rparr> lg')"
  by (simp add: calibrate_response)

text \<open>
  Claim C10. The \<open>rmse\<close> and \<open>source_platform\<close> of the response do not depend on the
  input: for any two calibration requests, both responses are results with \<open>rmse\<close>
  exactly 0.0012 and \<open>source_platform\<close> exactly \<open>"python"\<close>.
\<close>

theorem calibrate_rmse_platform_constant:
  "\<exists>r1 r2. fst (calibrate request1 lg1) = Inr r1
     \<and> fst (calibrate request2 lg2) = Inr r2
     \<and> rmse r1 = Finite 0.0012 \<and> rmse r2 = Finite 0.0012
     \<and> source_platform r1 = ''python'' \<and> source_platform r2 = ''python''"
  by (simp add: calibrate_response)

section \<open>Properties of \<open>analyze\<close>\<close>

subsection \<open>Digits\<close>











subsection \<open>Rounding\<close>




subsection \<open>What \<open>format_4f\<close> prints\<close>



lemma fixed_4f_mock_rmse: "fixed_4f False 0.0012 = ''0.0012''"
  by code_simp

lemma format_4f_mock_rmse: "format_4f (Finite 0.0012) = ''0.0012''"
proof -
  have "format_4f (Finite 0.0012) = fixed_4f False 0.0012"
    by simp
  then show ?thesis
    by (simp only: fixed_4f_mock_rmse)
qed

lemma format_4f_negative_zero: "format_4f NegZero = ''-0.0000''"
  by (simp add: fixed_4f_def round_half_even_def zero_padded4_def digit_char_def
        str_nat.simps [of 0])

subsection \<open>The response\<close>

lemma analyze_response:
  "fst (analyze request lg) =
     Inr \<lparr>analysis = ''AI Analysis: The received RMSE is ''
                      @ format_4f (rmse (result request))
                      @ ''. Data parsed successfully.''\<rparr>"
  by (simp add: analyze_def Let_def)

text \<open>The request of \<open>test_analyze_endpoint\<close>, carrying the mock result.\<close>

lemma analyze_mock_result:
  "fst (analyze \<lparr>result = \<lparr>rmse = Finite 0.0012,
                            transform_elements = mock_transform_elements,
                            source_platform = ''python'', num_points_used = 1\<rparr>,
                  prompt = ''Analyze this result.''\<rparr> [])
     = Inr \<lparr>analysis =
              ''AI Analysis: The received RMSE is 0.0012. Data parsed successfully.''\<rparr>"
  by (simp only: analyze_response AnalysisRequestModel.select_convs
        CalibrationResultModel.select_convs format_4f_mock_rmse) simp

text \<open>A request whose \<open>rmse\<close> is \<open>-0.0\<close>: the sign is printed.\<close>

lemma analyze_negative_zero:
  "fst (analyze \<lparr>result = \<lparr>rmse = NegZero,
                            transform_elements = mock_transform_elements,
                            source_platform = ''python'', num_points_used = 1\<rparr>,
                  prompt = ''Analyze this result.''\<rparr> [])
     = Inr \<lparr>analysis =
              ''AI Analysis: The received RMSE is -0.0000. Data parsed successfully.''\<rparr>"
  by (simp only: analyze_response AnalysisRequestModel.select_convs
        CalibrationResultModel.select_convs format_4f_negative_zero) simp




section \<open>Properties of \<open>authenticate\<close>\<close>


text \<open>On a user name outside ASCII the first comparison itself raises.\<close>

lemma authenticate_non_ascii_username:
  "\<not> is_ascii (username credentials) \<Longrightarrow>
     authenticate us credentials =
       Inl (TypeError ''comparing strings with non-ASCII characters is not supported'')"
  by (simp add: authenticate_def compare_digest_def)




end
